theory Spec2Isabelle
  imports Main
begin

section \<open>Data model\<close>

text \<open>
  The rows the article service reads and writes. Identifiers are JavaScript
  \<^verbatim>\<open>bigint\<close>/\<^verbatim>\<open>number\<close> values, modelled as unbounded integers. Columns
  the service never mentions (credentials, the generated timestamps) are left out.
\<close>

record User =
  user_id :: int
  user_login :: string

record Article =
  article_id :: int
  article_userId :: int
  article_title :: string
  article_content :: string

record Sticker =
  sticker_id :: int
  sticker_name :: string

record ArticleSticker =
  articleId :: int
  stickerId :: int

text \<open>
  \<^verbatim>\<open>ArticleRequestTo\<close>: the body of a create or update request. The sticker
  list is optional (\<^verbatim>\<open>stickers?: string[]\<close>).
\<close>

record ArticleRequestTo =
  userId :: int
  title :: string
  content :: string
  stickers :: "string list option"

text \<open>The store: the four tables, each a list of rows in insertion order.\<close>

record db =
  user_table :: "User list"
  article_table :: "Article list"
  sticker_table :: "Sticker list"
  articleSticker_table :: "ArticleSticker list"

section \<open>Errors\<close>

text \<open>
  An error raised by the persistence client itself, carrying the client's
  description of it. Below, P2002 is its code for a violated unique key and
  P2025 its code for a record that is not there.
\<close>

datatype prisma_error = PrismaError string

text \<open>
  What a service method can throw: one of the four HTTP exception classes the
  service constructs, or a persistence error it does not catch.
\<close>

datatype exception =
    UnauthorizedException string
  | ForbiddenException string
  | NotFoundException string
  | InternalServerErrorException string
  | Propagated prisma_error

text \<open>
  The error kinds of the specification (its section on error handling), and the
  kind each exception class stands for: the four kinds name the four exception
  classes, and an uncaught persistence error is the fifth.
\<close>

datatype error_kind = NotAuthorized | Conflict | NotFound | ServerError | Unhandled

fun error_kind_of :: "exception \<Rightarrow> error_kind" where
  "error_kind_of (UnauthorizedException m) = NotAuthorized"
| "error_kind_of (ForbiddenException m) = Conflict"
| "error_kind_of (NotFoundException m) = NotFound"
| "error_kind_of (InternalServerErrorException m) = ServerError"
| "error_kind_of (Propagated e) = Unhandled"

section \<open>The persistence gateway\<close>

text \<open>
  Modelled from the spec: the persistence gateway (the generated database client
  and the schema it is generated from), which the service calls and which is not
  among the sources. Its contract is the one of the specification's section on
  external interfaces: point lookups returning a record or nothing, insert
  returning the created record with a generated identifier, update and delete by
  id, bulk insert of join rows, count, and a transaction that commits or rolls
  back as a unit with reads inside it seeing its own writes.

  The schema decides which writes the database refuses (unique keys, foreign
  keys, the key of the join table) and how identifiers are generated. Both are
  parameters: \<open>rejects g w s\<close> is the error the database answers write \<open>w\<close> with
  in store \<open>s\<close>, if it refuses it, and the two generators give the identifier of
  the next inserted row. A write that is not refused is carried out in full.
\<close>

datatype db_write =
    StickerCreate string
  | ArticleCreate int string string
  | ArticleStickerCreateMany "ArticleSticker list"
  | ArticleUpdate int ArticleRequestTo
  | ArticleStickerDeleteMany int
  | StickerDelete int
  | ArticleDelete int

record gateway =
  rejects :: "db_write \<Rightarrow> db \<Rightarrow> prisma_error option"
  new_article_id :: "db \<Rightarrow> int"
  new_sticker_id :: "db \<Rightarrow> int"

subsection \<open>Reads\<close>

definition user_findUnique :: "db \<Rightarrow> int \<Rightarrow> User option" where
  "user_findUnique s uid = find (\<lambda>u. user_id u = uid) (user_table s)"

definition article_findUnique :: "db \<Rightarrow> int \<Rightarrow> Article option" where
  "article_findUnique s aid = find (\<lambda>a. article_id a = aid) (article_table s)"

definition article_findUnique_title :: "db \<Rightarrow> string \<Rightarrow> Article option" where
  "article_findUnique_title s t = find (\<lambda>a. article_title a = t) (article_table s)"

definition sticker_findFirst :: "db \<Rightarrow> string \<Rightarrow> Sticker option" where
  "sticker_findFirst s n = find (\<lambda>r. sticker_name r = n) (sticker_table s)"

definition articleSticker_findMany :: "db \<Rightarrow> int \<Rightarrow> ArticleSticker list" where
  "articleSticker_findMany s aid =
     filter (\<lambda>l. articleId l = aid) (articleSticker_table s)"

text \<open>
  \<^verbatim>\<open>count({ where: { stickerId, NOT: { articleId: id } } })\<close>: the links of a
  sticker that belong to another article.
\<close>

definition articleSticker_count :: "db \<Rightarrow> int \<Rightarrow> int \<Rightarrow> nat" where
  "articleSticker_count s sid aid =
     length (filter (\<lambda>l. stickerId l = sid \<and> \<not> articleId l = aid) (articleSticker_table s))"

subsection \<open>Writes\<close>

definition sticker_create :: "gateway \<Rightarrow> db \<Rightarrow> string \<Rightarrow> prisma_error + (Sticker \<times> db)" where
  "sticker_create g s n =
     (case rejects g (StickerCreate n) s of
        Some e \<Rightarrow> Inl e
      | None \<Rightarrow>
          (let newSticker = \<lparr>sticker_id = new_sticker_id g s, sticker_name = n\<rparr>
           in Inr (newSticker, s\<lparr>sticker_table := sticker_table s @ [newSticker]\<rparr>)))"

definition article_create ::
  "gateway \<Rightarrow> db \<Rightarrow> int \<Rightarrow> string \<Rightarrow> string \<Rightarrow> prisma_error + (Article \<times> db)" where
  "article_create g s uid t c =
     (case rejects g (ArticleCreate uid t c) s of
        Some e \<Rightarrow> Inl e
      | None \<Rightarrow>
          (let newArticle = \<lparr>article_id = new_article_id g s, article_userId = uid,
                             article_title = t, article_content = c\<rparr>
           in Inr (newArticle, s\<lparr>article_table := article_table s @ [newArticle]\<rparr>)))"

definition articleSticker_createMany ::
  "gateway \<Rightarrow> db \<Rightarrow> ArticleSticker list \<Rightarrow> prisma_error + db" where
  "articleSticker_createMany g s rows =
     (case rejects g (ArticleStickerCreateMany rows) s of
        Some e \<Rightarrow> Inl e
      | None \<Rightarrow> Inr (s\<lparr>articleSticker_table := articleSticker_table s @ rows\<rparr>))"

text \<open>
  \<^verbatim>\<open>update({ where: { id }, data })\<close> writes the scalar columns of the request
  into the row with that id and returns the row; it fails when there is no such
  row. The service passes the whole request as data, so the write carries the
  request; whether a request with a sticker list, an unknown owner or a taken
  title is accepted is the schema's decision.
\<close>

definition apply_update :: "ArticleRequestTo \<Rightarrow> Article \<Rightarrow> Article" where
  "apply_update article a =
     a\<lparr>article_userId := userId article, article_title := title article,
       article_content := content article\<rparr>"

definition article_update ::
  "gateway \<Rightarrow> db \<Rightarrow> int \<Rightarrow> ArticleRequestTo \<Rightarrow> prisma_error + (Article \<times> db)" where
  "article_update g s aid article =
     (case article_findUnique s aid of
        None \<Rightarrow> Inl (PrismaError ''P2025'')
      | Some a \<Rightarrow>
          (case rejects g (ArticleUpdate aid article) s of
             Some e \<Rightarrow> Inl e
           | None \<Rightarrow>
               Inr (apply_update article a,
                    s\<lparr>article_table :=
                        map (\<lambda>r. if article_id r = aid then apply_update article r else r)
                          (article_table s)\<rparr>)))"

definition articleSticker_deleteMany :: "gateway \<Rightarrow> db \<Rightarrow> int \<Rightarrow> prisma_error + db" where
  "articleSticker_deleteMany g s aid =
     (case rejects g (ArticleStickerDeleteMany aid) s of
        Some e \<Rightarrow> Inl e
      | None \<Rightarrow>
          Inr (s\<lparr>articleSticker_table :=
                   filter (\<lambda>l. \<not> articleId l = aid) (articleSticker_table s)\<rparr>))"

text \<open>\<^verbatim>\<open>delete({ where: { id } })\<close> fails when there is no row with that id.\<close>

definition sticker_delete :: "gateway \<Rightarrow> db \<Rightarrow> int \<Rightarrow> prisma_error + db" where
  "sticker_delete g s sid =
     (if \<not> list_ex (\<lambda>r. sticker_id r = sid) (sticker_table s) then Inl (PrismaError ''P2025'')
      else (case rejects g (StickerDelete sid) s of
              Some e \<Rightarrow> Inl e
            | None \<Rightarrow>
                Inr (s\<lparr>sticker_table :=
                         filter (\<lambda>r. \<not> sticker_id r = sid) (sticker_table s)\<rparr>)))"

definition article_delete :: "gateway \<Rightarrow> db \<Rightarrow> int \<Rightarrow> prisma_error + db" where
  "article_delete g s aid =
     (if \<not> list_ex (\<lambda>a. article_id a = aid) (article_table s) then Inl (PrismaError ''P2025'')
      else (case rejects g (ArticleDelete aid) s of
              Some e \<Rightarrow> Inl e
            | None \<Rightarrow>
                Inr (s\<lparr>article_table :=
                         filter (\<lambda>a. \<not> article_id a = aid) (article_table s)\<rparr>)))"

subsection \<open>Transactions\<close>

text \<open>
  Modelled from the spec: \<^verbatim>\<open>$transaction(async (tx) => ...)\<close>. The block runs on
  the store and threads its writes through; when it throws, the store it reached
  is dropped and the store from before the block is kept, and the error goes to
  the caller as it is.
\<close>

definition transaction ::
  "db \<Rightarrow> (db \<Rightarrow> (prisma_error + 'a) \<times> db) \<Rightarrow> (exception + 'a) \<times> db" where
  "transaction s body =
     (case body s of
        (Inl e, partial) \<Rightarrow> (Inl (Propagated e), s)
      | (Inr v, s') \<Rightarrow> (Inr v, s'))"

section \<open>The article service\<close>

subsection \<open>createArticle\<close>

text \<open>
  The loop over the requested sticker names: look each name up, create it when
  it is not there, and push the record found or created.
\<close>

fun createArticle_stickers ::
  "gateway \<Rightarrow> string list \<Rightarrow> Sticker list \<Rightarrow> db \<Rightarrow> (prisma_error + Sticker list) \<times> db" where
  "createArticle_stickers g [] stickerRecords s = (Inr stickerRecords, s)"
| "createArticle_stickers g (sticker # rest) stickerRecords s =
     (case sticker_findFirst s sticker of
        None \<Rightarrow>
          (case sticker_create g s sticker of
             Inl e \<Rightarrow> (Inl e, s)
           | Inr (newSticker, s') \<Rightarrow>
               createArticle_stickers g rest (stickerRecords @ [newSticker]) s')
      | Some find_sticker \<Rightarrow>
          createArticle_stickers g rest (stickerRecords @ [find_sticker]) s)"

text \<open>The block handed to the transaction.\<close>

definition createArticle_tx ::
  "gateway \<Rightarrow> ArticleRequestTo \<Rightarrow> db \<Rightarrow> (prisma_error + Article) \<times> db" where
  "createArticle_tx g article s =
     (case (case stickers article of
              None \<Rightarrow> (Inr [], s)
            | Some names \<Rightarrow> createArticle_stickers g names [] s) of
        (Inl e, s1) \<Rightarrow> (Inl e, s1)
      | (Inr stickerRecords, s1) \<Rightarrow>
          (case article_create g s1 (userId article) (title article) (content article) of
             Inl e \<Rightarrow> (Inl e, s1)
           | Inr (newArticle, s2) \<Rightarrow>
               if length stickerRecords > 0 then
                 (case articleSticker_createMany g s2
                         (map (\<lambda>sticker. \<lparr>articleId = article_id newArticle,
                                           stickerId = sticker_id sticker\<rparr>) stickerRecords) of
                    Inl e \<Rightarrow> (Inl e, s2)
                  | Inr s3 \<Rightarrow> (Inr newArticle, s3))
               else (Inr newArticle, s2)))"

definition createArticle ::
  "gateway \<Rightarrow> db \<Rightarrow> ArticleRequestTo \<Rightarrow> (exception + Article) \<times> db" where
  "createArticle g s article =
     (case user_findUnique s (userId article) of
        None \<Rightarrow> (Inl (UnauthorizedException ''User with userId not found!''), s)
      | Some user \<Rightarrow>
          (case article_findUnique_title s (title article) of
             Some articleWithTitle \<Rightarrow>
               (Inl (ForbiddenException ''Article with title already exists!''), s)
           | None \<Rightarrow> transaction s (createArticle_tx g article)))"

subsection \<open>getArticleById and updateArticle\<close>

definition getArticleById :: "db \<Rightarrow> int \<Rightarrow> exception + Article" where
  "getArticleById s aid =
     (case article_findUnique s aid of
        None \<Rightarrow> Inl (UnauthorizedException ''Article with id not found!'')
      | Some article \<Rightarrow> Inr article)"

definition updateArticle ::
  "gateway \<Rightarrow> db \<Rightarrow> int \<Rightarrow> ArticleRequestTo \<Rightarrow> (exception + Article) \<times> db" where
  "updateArticle g s aid article =
     (case article_findUnique s aid of
        None \<Rightarrow> (Inl (UnauthorizedException ''Article with id not found!''), s)
      | Some existArticle \<Rightarrow>
          (case article_update g s aid article of
             Inl e \<Rightarrow> (Inl (InternalServerErrorException ''Database error occurred''), s)
           | Inr (updated, s') \<Rightarrow> (Inr updated, s')))"

subsection \<open>deleteArticle\<close>

text \<open>
  The loop over the sticker ids the article was linked to: count the links other
  articles hold on the sticker and delete the sticker when there are none.
\<close>

fun deleteArticle_stickers ::
  "gateway \<Rightarrow> int \<Rightarrow> int list \<Rightarrow> db \<Rightarrow> (prisma_error + unit) \<times> db" where
  "deleteArticle_stickers g aid [] s = (Inr (), s)"
| "deleteArticle_stickers g aid (sid # rest) s =
     (let otherConnections = articleSticker_count s sid aid
      in if otherConnections = 0 then
           (case sticker_delete g s sid of
              Inl e \<Rightarrow> (Inl e, s)
            | Inr s' \<Rightarrow> deleteArticle_stickers g aid rest s')
         else deleteArticle_stickers g aid rest s)"

definition deleteArticle_tx :: "gateway \<Rightarrow> int \<Rightarrow> db \<Rightarrow> (prisma_error + unit) \<times> db" where
  "deleteArticle_tx g aid s =
     (let articleStickers = articleSticker_findMany s aid;
          stickerIds = map stickerId articleStickers
      in case articleSticker_deleteMany g s aid of
           Inl e \<Rightarrow> (Inl e, s)
         | Inr s1 \<Rightarrow>
             (case deleteArticle_stickers g aid stickerIds s1 of
                (Inl e, s2) \<Rightarrow> (Inl e, s2)
              | (Inr u, s2) \<Rightarrow>
                  (case article_delete g s2 aid of
                     Inl e \<Rightarrow> (Inl e, s2)
                   | Inr s3 \<Rightarrow> (Inr (), s3))))"

definition deleteArticle :: "gateway \<Rightarrow> db \<Rightarrow> int \<Rightarrow> (exception + unit) \<times> db" where
  "deleteArticle g s aid =
     (case article_findUnique s aid of
        None \<Rightarrow> (Inl (NotFoundException ''Article not found''), s)
      | Some existArticle \<Rightarrow> transaction s (deleteArticle_tx g aid))"

section \<open>Two concrete schemas\<close>

text \<open>
  Identifiers generated as one more than the largest in the table, and two
  schemas to run the service on. The first refuses no write. The second has a
  unique key on the article title (the service looks articles up by title with
  \<^verbatim>\<open>findUnique\<close>) and the pair (article, sticker) as the key of the join
  table, so that a bulk insert repeating a pair, or inserting a pair that is
  already there, is refused.
\<close>

definition next_id :: "int list \<Rightarrow> int" where
  "next_id ids = fold max ids 0 + 1"

definition unconstrained :: gateway where
  "unconstrained =
     \<lparr>rejects = (\<lambda>w s. None),
      new_article_id = (\<lambda>s. next_id (map article_id (article_table s))),
      new_sticker_id = (\<lambda>s. next_id (map sticker_id (sticker_table s)))\<rparr>"

fun keyed_rejects :: "db_write \<Rightarrow> db \<Rightarrow> prisma_error option" where
  "keyed_rejects (ArticleStickerCreateMany rows) s =
     (if distinct rows \<and> list_all (\<lambda>l. l \<notin> set (articleSticker_table s)) rows then None
      else Some (PrismaError ''P2002''))"
| "keyed_rejects (ArticleCreate uid t c) s =
     (if list_ex (\<lambda>a. article_title a = t) (article_table s)
      then Some (PrismaError ''P2002'') else None)"
| "keyed_rejects (ArticleUpdate aid article) s =
     (if list_ex (\<lambda>a. article_title a = title article \<and> \<not> article_id a = aid) (article_table s)
      then Some (PrismaError ''P2002'') else None)"
| "keyed_rejects w s = None"

definition keyed :: gateway where
  "keyed = unconstrained\<lparr>rejects := keyed_rejects\<rparr>"

text \<open>A store with one user, and a store with two articles sharing a sticker.\<close>

definition db0 :: db where
  "db0 = \<lparr>user_table = [\<lparr>user_id = 1, user_login = ''u1''\<rparr>], article_table = [],
          sticker_table = [], articleSticker_table = []\<rparr>"

definition db_xy :: db where
  "db_xy =
     \<lparr>user_table = [\<lparr>user_id = 1, user_login = ''u1''\<rparr>, \<lparr>user_id = 2, user_login = ''u2''\<rparr>],
      article_table =
        [\<lparr>article_id = 1, article_userId = 1, article_title = ''X'', article_content = ''Text''\<rparr>,
         \<lparr>article_id = 2, article_userId = 1, article_title = ''Y'', article_content = ''Text''\<rparr>],
      sticker_table =
        [\<lparr>sticker_id = 1, sticker_name = ''only-x''\<rparr>, \<lparr>sticker_id = 2, sticker_name = ''shared''\<rparr>],
      articleSticker_table =
        [\<lparr>articleId = 1, stickerId = 1\<rparr>, \<lparr>articleId = 1, stickerId = 2\<rparr>,
         \<lparr>articleId = 2, stickerId = 2\<rparr>]\<rparr>"

text \<open>The second store after article 1 is deleted.\<close>

definition db_y :: db where
  "db_y =
     \<lparr>user_table = [\<lparr>user_id = 1, user_login = ''u1''\<rparr>, \<lparr>user_id = 2, user_login = ''u2''\<rparr>],
      article_table =
        [\<lparr>article_id = 2, article_userId = 1, article_title = ''Y'', article_content = ''Text''\<rparr>],
      sticker_table = [\<lparr>sticker_id = 2, sticker_name = ''shared''\<rparr>],
      articleSticker_table = [\<lparr>articleId = 2, stickerId = 2\<rparr>]\<rparr>"

text \<open>The requests the service is run on below.\<close>

definition req_aab :: ArticleRequestTo where
  "req_aab = \<lparr>userId = 1, title = ''T'', content = ''Text'', stickers = Some [''a'', ''a'', ''b'']\<rparr>"

definition req_t :: ArticleRequestTo where
  "req_t = \<lparr>userId = 1, title = ''T'', content = ''Text'', stickers = Some [''red'', ''blue'']\<rparr>"

definition req_t_stranger :: ArticleRequestTo where
  "req_t_stranger = \<lparr>userId = 7, title = ''T'', content = ''Other'', stickers = None\<rparr>"

definition req_t_again :: ArticleRequestTo where
  "req_t_again = \<lparr>userId = 1, title = ''T'', content = ''Other'', stickers = Some [''green'']\<rparr>"

definition req_z :: ArticleRequestTo where
  "req_z = \<lparr>userId = 2, title = ''Z'', content = ''Text'', stickers = Some [''shared'', ''new'']\<rparr>"

definition req_owner2 :: ArticleRequestTo where
  "req_owner2 = \<lparr>userId = 2, title = ''X'', content = ''Text'', stickers = None\<rparr>"

definition req_title_y :: ArticleRequestTo where
  "req_title_y = \<lparr>userId = 1, title = ''Y'', content = ''Text'', stickers = None\<rparr>"

text \<open>The store \<open>db0\<close> after \<open>req_t\<close> has been created in it.\<close>

definition db_t :: db where
  "db_t =
     \<lparr>user_table = [\<lparr>user_id = 1, user_login = ''u1''\<rparr>],
      article_table =
        [\<lparr>article_id = 1, article_userId = 1, article_title = ''T'', article_content = ''Text''\<rparr>],
      sticker_table =
        [\<lparr>sticker_id = 1, sticker_name = ''red''\<rparr>, \<lparr>sticker_id = 2, sticker_name = ''blue''\<rparr>],
      articleSticker_table =
        [\<lparr>articleId = 1, stickerId = 1\<rparr>, \<lparr>articleId = 1, stickerId = 2\<rparr>]\<rparr>"

section \<open>The invariant of the sticker table\<close>

text \<open>Every sticker row is referenced by at least one link row.\<close>

definition no_orphan :: "db \<Rightarrow> bool" where
  "no_orphan s =
     list_all (\<lambda>r. list_ex (\<lambda>l. stickerId l = sticker_id r) (articleSticker_table s))
       (sticker_table s)"

section \<open>createArticle: the guards\<close>

text \<open>
  C5: a create call whose owner id matches no user fails with the NotAuthorized
  kind of error and the store (article, sticker and link tables included) is the
  one from before the call.
\<close>

theorem createArticle_owner_missing:
  "user_findUnique s (userId article) = None \<Longrightarrow>
   createArticle g s article =
     (Inl (UnauthorizedException ''User with userId not found!''), s) \<and>
   error_kind_of (UnauthorizedException ''User with userId not found!'') = NotAuthorized"
  by (simp add: createArticle_def)

text \<open>C5 at a request naming user 7 in a store whose only user is 1.\<close>

theorem createArticle_owner_missing_witness:
  "user_findUnique db0 (userId req_t_stranger) = None \<and>
   createArticle keyed db0 req_t_stranger =
     (Inl (UnauthorizedException ''User with userId not found!''), db0)"
proof -
  have h: "user_findUnique db0 (userId req_t_stranger) = None" by code_simp
  from createArticle_owner_missing [OF h, of keyed] h show ?thesis by simp
qed

section \<open>createArticle: what a successful call wrote\<close>

lemma createArticle_stickers_success:
  "createArticle_stickers g names acc s = (Inr recs, s') \<Longrightarrow>
   user_table s' = user_table s \<and> article_table s' = article_table s \<and>
   articleSticker_table s' = articleSticker_table s \<and> set acc \<subseteq> set recs \<and>
   (\<exists>new. sticker_table s' = sticker_table s @ new \<and> set new \<subseteq> set recs)"
proof (induction names arbitrary: acc s)
  case Nil
  then show ?case by simp
next
  case (Cons n names)
  show ?case
  proof (cases "sticker_findFirst s n")
    case None
    with Cons.prems obtain newSticker s1 where
      c: "sticker_create g s n = Inr (newSticker, s1)" and
      r: "createArticle_stickers g names (acc @ [newSticker]) s1 = (Inr recs, s')"
      by (auto split: sum.splits)
    from c have s1: "s1 = s\<lparr>sticker_table := sticker_table s @ [newSticker]\<rparr>"
      by (auto simp: sticker_create_def Let_def split: option.splits)
    from Cons.IH [OF r] s1 show ?thesis by auto
  next
    case (Some found)
    with Cons.prems have
      r: "createArticle_stickers g names (acc @ [found]) s = (Inr recs, s')"
      by simp
    from Cons.IH [OF r] show ?thesis by auto
  qed
qed

text \<open>
  The loop pushes one record per requested name, in order, repeated names
  included.
\<close>

lemma createArticle_stickers_records:
  "createArticle_stickers g names acc s = (Inr recs, s') \<Longrightarrow>
   map sticker_name recs = map sticker_name acc @ names"
proof (induction names arbitrary: acc s)
  case Nil
  then show ?case by simp
next
  case (Cons n names)
  show ?case
  proof (cases "sticker_findFirst s n")
    case None
    with Cons.prems obtain newSticker s1 where
      c: "sticker_create g s n = Inr (newSticker, s1)" and
      r: "createArticle_stickers g names (acc @ [newSticker]) s1 = (Inr recs, s')"
      by (auto split: sum.splits)
    from c have "sticker_name newSticker = n"
      by (auto simp: sticker_create_def Let_def split: option.splits)
    with Cons.IH [OF r] show ?thesis by simp
  next
    case (Some found)
    then have "sticker_name found = n"
      by (auto simp: sticker_findFirst_def find_Some_iff)
    moreover from Some Cons.prems have
      "createArticle_stickers g names (acc @ [found]) s = (Inr recs, s')"
      by simp
    from Cons.IH [OF this] have "map sticker_name recs = map sticker_name (acc @ [found]) @ names" .
    ultimately show ?thesis by simp
  qed
qed

text \<open>
  The loop never inserts a name twice: the rows it adds carry pairwise different
  names, exactly the requested names the table did not have.
\<close>

lemma createArticle_stickers_names:
  "createArticle_stickers g names acc s = (Inr recs, s') \<Longrightarrow>
   \<exists>new. sticker_table s' = sticker_table s @ new \<and> distinct (map sticker_name new) \<and>
     set (map sticker_name new) = set names - set (map sticker_name (sticker_table s))"
proof (induction names arbitrary: acc s)
  case Nil
  then show ?case by simp
next
  case (Cons n names)
  show ?case
  proof (cases "sticker_findFirst s n")
    case None
    then have fresh: "n \<notin> set (map sticker_name (sticker_table s))"
      by (auto simp: sticker_findFirst_def find_None_iff)
    from None Cons.prems obtain newSticker s1 where
      c: "sticker_create g s n = Inr (newSticker, s1)" and
      r: "createArticle_stickers g names (acc @ [newSticker]) s1 = (Inr recs, s')"
      by (auto split: sum.splits)
    from c have s1: "sticker_table s1 = sticker_table s @ [newSticker]"
      and nm: "sticker_name newSticker = n"
      by (auto simp: sticker_create_def Let_def split: option.splits)
    from Cons.IH [OF r] obtain new where
      new: "sticker_table s' = sticker_table s1 @ new" "distinct (map sticker_name new)"
        "set (map sticker_name new) = set names - set (map sticker_name (sticker_table s1))"
      by blast
    have "sticker_table s' = sticker_table s @ (newSticker # new)"
      using new(1) s1 by simp
    moreover have "distinct (map sticker_name (newSticker # new))"
      using new(2,3) s1 nm by auto
    moreover have "set (map sticker_name (newSticker # new)) =
        set (n # names) - set (map sticker_name (sticker_table s))"
      using new(3) s1 nm fresh by auto
    ultimately show ?thesis by blast
  next
    case (Some found)
    then have known: "n \<in> set (map sticker_name (sticker_table s))"
      by (auto simp: sticker_findFirst_def find_Some_iff)
    from Some Cons.prems have
      r: "createArticle_stickers g names (acc @ [found]) s = (Inr recs, s')"
      by simp
    from Cons.IH [OF r] known show ?thesis by auto
  qed
qed

lemma createArticle_tx_success:
  assumes "createArticle_tx g article s = (Inr a, s')"
  shows "\<exists>recs new.
     user_table s' = user_table s \<and>
     article_table s' = article_table s @ [a] \<and>
     article_userId a = userId article \<and> article_title a = title article \<and>
     article_content a = content article \<and>
     sticker_table s' = sticker_table s @ new \<and> set new \<subseteq> set recs \<and>
     articleSticker_table s' = articleSticker_table s @
        map (\<lambda>sticker. \<lparr>articleId = article_id a, stickerId = sticker_id sticker\<rparr>) recs"
proof -
  obtain r1 s1 where l: "(case stickers article of None \<Rightarrow> (Inr [], s)
            | Some names \<Rightarrow> createArticle_stickers g names [] s) = (r1, s1)"
    by (cases "(case stickers article of None \<Rightarrow> (Inr [], s)
            | Some names \<Rightarrow> createArticle_stickers g names [] s)") auto
  with assms obtain recs where r1: "r1 = Inr recs"
    by (cases r1) (auto simp: createArticle_tx_def)
  have loop: "user_table s1 = user_table s \<and> article_table s1 = article_table s \<and>
   articleSticker_table s1 = articleSticker_table s \<and>
   (\<exists>new. sticker_table s1 = sticker_table s @ new \<and> set new \<subseteq> set recs)"
  proof (cases "stickers article")
    case None
    with l r1 show ?thesis by auto
  next
    case (Some names)
    with l r1 have "createArticle_stickers g names [] s = (Inr recs, s1)" by simp
    from createArticle_stickers_success [OF this] show ?thesis by simp
  qed
  from assms l r1 obtain s2 where
    c: "article_create g s1 (userId article) (title article) (content article) = Inr (a, s2)"
    and m: "(if length recs > 0 then
                 (case articleSticker_createMany g s2
                         (map (\<lambda>sticker. \<lparr>articleId = article_id a,
                                           stickerId = sticker_id sticker\<rparr>) recs) of
                    Inl e \<Rightarrow> (Inl e, s2)
                  | Inr s3 \<Rightarrow> (Inr a, s3))
               else (Inr a, s2)) = (Inr a, s')"
    by (auto simp: createArticle_tx_def split: sum.splits if_splits)
  from c have s2: "s2 = s1\<lparr>article_table := article_table s1 @ [a]\<rparr>"
    and a: "article_userId a = userId article \<and> article_title a = title article \<and>
     article_content a = content article"
    by (auto simp: article_create_def Let_def split: option.splits)
  from m have s': "s' = s2\<lparr>articleSticker_table := articleSticker_table s2 @
       map (\<lambda>sticker. \<lparr>articleId = article_id a, stickerId = sticker_id sticker\<rparr>) recs\<rparr>"
    by (auto simp: articleSticker_createMany_def split: if_splits sum.splits option.splits)
  from loop obtain new where "sticker_table s1 = sticker_table s @ new" "set new \<subseteq> set recs"
    by blast
  with loop s2 s' a show ?thesis by auto
qed

lemma createArticle_success:
  "createArticle g s article = (Inr a, s') \<Longrightarrow> createArticle_tx g article s = (Inr a, s')"
  by (auto simp: createArticle_def transaction_def split: option.splits sum.splits prod.splits)

lemma createArticle_failure: "createArticle g s article = (Inl e, s') \<Longrightarrow> s' = s"
  by (auto simp: createArticle_def transaction_def split: option.splits sum.splits prod.splits)

text \<open>
  With a schema that refuses nothing, a create call whose owner exists and whose
  title is free returns an article.
\<close>

lemma createArticle_stickers_returns:
  "\<forall>w s. rejects g w s = None \<Longrightarrow>
   \<exists>recs s'. createArticle_stickers g names acc s = (Inr recs, s')"
proof (induction names arbitrary: acc s)
  case Nil
  then show ?case by simp
next
  case (Cons n names)
  then show ?case
    by (cases "sticker_findFirst s n") (auto simp: sticker_create_def Let_def)
qed

lemma createArticle_returns:
  assumes "\<forall>w s. rejects g w s = None"
    and "user_findUnique s (userId article) \<noteq> None"
    and "article_findUnique_title s (title article) = None"
  shows "\<exists>a s'. createArticle g s article = (Inr a, s')"
proof -
  obtain recs s1 where l: "(case stickers article of None \<Rightarrow> (Inr [], s)
            | Some names \<Rightarrow> createArticle_stickers g names [] s) = (Inr recs, s1)"
    using createArticle_stickers_returns [OF assms(1)]
    by (cases "stickers article") (auto, blast)
  show ?thesis
    using assms l
    by (auto simp: createArticle_def transaction_def createArticle_tx_def article_create_def
        articleSticker_createMany_def Let_def)
qed

section \<open>createArticle: duplicate sticker names\<close>

text \<open>
  C1, evaluated at the sticker list a, a, b in a store with no sticker. The two
  sticker rows a and b are created once each, but the record of a is pushed for
  both occurrences, so the bulk insert is handed the pair (article 1, sticker 1)
  twice. Where the join table has no key on the pair, the article ends up linked
  to sticker a by two rows; where it has one, the insert is refused, the
  transaction is rolled back and the call fails with the persistence error,
  creating nothing.
\<close>

theorem createArticle_duplicate_names:
  "createArticle unconstrained db0 req_aab =
     (Inr \<lparr>article_id = 1, article_userId = 1, article_title = ''T'', article_content = ''Text''\<rparr>,
      \<lparr>user_table = [\<lparr>user_id = 1, user_login = ''u1''\<rparr>],
       article_table =
         [\<lparr>article_id = 1, article_userId = 1, article_title = ''T'', article_content = ''Text''\<rparr>],
       sticker_table =
         [\<lparr>sticker_id = 1, sticker_name = ''a''\<rparr>, \<lparr>sticker_id = 2, sticker_name = ''b''\<rparr>],
       articleSticker_table =
         [\<lparr>articleId = 1, stickerId = 1\<rparr>, \<lparr>articleId = 1, stickerId = 1\<rparr>,
          \<lparr>articleId = 1, stickerId = 2\<rparr>]\<rparr>) \<and>
   createArticle keyed db0 req_aab = (Inl (Propagated (PrismaError ''P2002'')), db0)"
proof -
  have "createArticle unconstrained db0 req_aab =
     (Inr \<lparr>article_id = 1, article_userId = 1, article_title = ''T'', article_content = ''Text''\<rparr>,
      \<lparr>user_table = [\<lparr>user_id = 1, user_login = ''u1''\<rparr>],
       article_table =
         [\<lparr>article_id = 1, article_userId = 1, article_title = ''T'', article_content = ''Text''\<rparr>],
       sticker_table =
         [\<lparr>sticker_id = 1, sticker_name = ''a''\<rparr>, \<lparr>sticker_id = 2, sticker_name = ''b''\<rparr>],
       articleSticker_table =
         [\<lparr>articleId = 1, stickerId = 1\<rparr>, \<lparr>articleId = 1, stickerId = 1\<rparr>,
          \<lparr>articleId = 1, stickerId = 2\<rparr>]\<rparr>)"
    by code_simp
  moreover have "createArticle keyed db0 req_aab = (Inl (Propagated (PrismaError ''P2002'')), db0)"
    by code_simp
  ultimately show ?thesis by simp
qed

section \<open>createArticle: title uniqueness\<close>

text \<open>
  C4 as stated fails: after a create call with title T has succeeded, a second
  create call with the same title whose owner id matches no user fails at the
  owner check, with the NotAuthorized kind of error and not the Conflict kind.
\<close>

theorem createArticle_same_title_stranger:
  "createArticle keyed db0 req_t =
     (Inr \<lparr>article_id = 1, article_userId = 1, article_title = ''T'', article_content = ''Text''\<rparr>,
      db_t) \<and>
   title req_t_stranger = title req_t \<and>
   createArticle keyed db_t req_t_stranger =
     (Inl (UnauthorizedException ''User with userId not found!''), db_t) \<and>
   error_kind_of (UnauthorizedException ''User with userId not found!'') \<noteq> Conflict"
proof -
  have "createArticle keyed db0 req_t =
     (Inr \<lparr>article_id = 1, article_userId = 1, article_title = ''T'', article_content = ''Text''\<rparr>,
      db_t)"
    by code_simp
  moreover have "title req_t_stranger = title req_t" by code_simp
  moreover have "createArticle keyed db_t req_t_stranger =
     (Inl (UnauthorizedException ''User with userId not found!''), db_t)"
    by code_simp
  ultimately show ?thesis by simp
qed

text \<open>
  C4, amended: when a create call has succeeded, a later create call with the
  same title whose owner exists fails with the Conflict kind of error, and the
  store is the one the first call left (no article, sticker or link row is
  written).
\<close>

theorem createArticle_title_conflict:
  assumes "createArticle g s first = (Inr a, s1)"
    and "title second = title first"
    and "user_findUnique s1 (userId second) \<noteq> None"
  shows "createArticle g s1 second =
           (Inl (ForbiddenException ''Article with title already exists!''), s1) \<and>
         error_kind_of (ForbiddenException ''Article with title already exists!'') = Conflict"
proof -
  from createArticle_tx_success [OF createArticle_success [OF assms(1)]]
  have "a \<in> set (article_table s1)" "article_title a = title first" by auto
  then have "article_findUnique_title s1 (title second) \<noteq> None"
    using assms(2) by (auto simp: article_findUnique_title_def find_None_iff)
  with assms(3) show ?thesis
    by (auto simp: createArticle_def)
qed

text \<open>C4, amended, at two requests of user 1 with title T.\<close>

theorem createArticle_title_conflict_witness:
  "createArticle keyed db0 req_t =
     (Inr \<lparr>article_id = 1, article_userId = 1, article_title = ''T'', article_content = ''Text''\<rparr>,
      db_t) \<and>
   title req_t_again = title req_t \<and>
   user_findUnique db_t (userId req_t_again) \<noteq> None \<and>
   createArticle keyed db_t req_t_again =
     (Inl (ForbiddenException ''Article with title already exists!''), db_t)"
proof -
  have h1: "createArticle keyed db0 req_t =
     (Inr \<lparr>article_id = 1, article_userId = 1, article_title = ''T'', article_content = ''Text''\<rparr>,
      db_t)"
    by code_simp
  have h2: "title req_t_again = title req_t" by code_simp
  have h3: "user_findUnique db_t (userId req_t_again) \<noteq> None" by code_simp
  from createArticle_title_conflict [OF h1 h2 h3] h1 h2 h3 show ?thesis by simp
qed

section \<open>createArticle: rollback\<close>

text \<open>
  C8: when the guards of a create call pass and a step of its transaction block
  fails (the sticker loop, the article insert or the bulk insert of the links),
  whatever the block had written by then, createArticle throws the persistence
  error and the store is the one from before the transaction.
\<close>

theorem createArticle_rollback:
  "createArticle_tx g article s = (Inl e, partial) \<Longrightarrow>
   user_findUnique s (userId article) \<noteq> None \<Longrightarrow>
   article_findUnique_title s (title article) = None \<Longrightarrow>
   createArticle g s article = (Inl (Propagated e), s)"
  by (auto simp: createArticle_def transaction_def)

text \<open>
  C8 at a bulk insert of links that is refused after the article row and two
  sticker rows have been inserted: none of them is in the store the call leaves.
\<close>

theorem createArticle_rollback_witness:
  "createArticle_tx keyed req_aab db0 =
     (Inl (PrismaError ''P2002''),
      \<lparr>user_table = [\<lparr>user_id = 1, user_login = ''u1''\<rparr>],
       article_table =
         [\<lparr>article_id = 1, article_userId = 1, article_title = ''T'', article_content = ''Text''\<rparr>],
       sticker_table =
         [\<lparr>sticker_id = 1, sticker_name = ''a''\<rparr>, \<lparr>sticker_id = 2, sticker_name = ''b''\<rparr>],
       articleSticker_table = []\<rparr>) \<and>
   user_findUnique db0 (userId req_aab) \<noteq> None \<and>
   article_findUnique_title db0 (title req_aab) = None \<and>
   createArticle keyed db0 req_aab = (Inl (Propagated (PrismaError ''P2002'')), db0) \<and>
   article_table db0 = [] \<and> sticker_table db0 = [] \<and> articleSticker_table db0 = []"
proof -
  have h1: "createArticle_tx keyed req_aab db0 =
     (Inl (PrismaError ''P2002''),
      \<lparr>user_table = [\<lparr>user_id = 1, user_login = ''u1''\<rparr>],
       article_table =
         [\<lparr>article_id = 1, article_userId = 1, article_title = ''T'', article_content = ''Text''\<rparr>],
       sticker_table =
         [\<lparr>sticker_id = 1, sticker_name = ''a''\<rparr>, \<lparr>sticker_id = 2, sticker_name = ''b''\<rparr>],
       articleSticker_table = []\<rparr>)"
    by code_simp
  have h2: "user_findUnique db0 (userId req_aab) \<noteq> None" by code_simp
  have h3: "article_findUnique_title db0 (title req_aab) = None" by code_simp
  have h4: "article_table db0 = [] \<and> sticker_table db0 = [] \<and> articleSticker_table db0 = []"
    by (simp add: db0_def)
  from createArticle_rollback [OF h1 h2 h3] h1 h2 h3 h4 show ?thesis by simp
qed

section \<open>updateArticle\<close>

lemma article_findUnique_id: "article_findUnique s aid = Some a \<Longrightarrow> article_id a = aid"
  by (auto simp: article_findUnique_def find_Some_iff)

lemma updateArticle_missing:
  "article_findUnique s aid = None \<Longrightarrow>
   updateArticle g s aid article =
     (Inl (UnauthorizedException ''Article with id not found!''), s)"
  by (simp add: updateArticle_def)

lemma updateArticle_success:
  assumes "updateArticle g s aid article = (Inr updated, s')"
  shows "s' = s\<lparr>article_table :=
                   map (\<lambda>r. if article_id r = aid then apply_update article r else r)
                     (article_table s)\<rparr>"
    and "\<exists>a. article_findUnique s aid = Some a \<and> updated = apply_update article a"
  using assms
  by (auto simp: updateArticle_def article_update_def split: option.splits sum.splits)

text \<open>
  C3, evaluated at an id no article has: the store is left as it was, but the
  error thrown is the UnauthorizedException that createArticle throws for a
  missing owner, of the NotAuthorized kind, where deleteArticle throws a
  NotFoundException for the same missing article.
\<close>

theorem updateArticle_missing_article:
  "article_findUnique db_y 1 = None \<and>
   updateArticle keyed db_y 1 req_owner2 =
     (Inl (UnauthorizedException ''Article with id not found!''), db_y) \<and>
   error_kind_of (UnauthorizedException ''Article with id not found!'') = NotAuthorized \<and>
   deleteArticle keyed db_y 1 = (Inl (NotFoundException ''Article not found''), db_y)"
proof -
  have h: "article_findUnique db_y 1 = None" by code_simp
  have d: "deleteArticle keyed db_y 1 = (Inl (NotFoundException ''Article not found''), db_y)"
    by code_simp
  from updateArticle_missing [OF h, of keyed req_owner2] h d show ?thesis by simp
qed

text \<open>
  C2 as stated fails: the update hands the whole request to the database, the
  owner id included. Article 1 belongs to user 1; after an update whose request
  names user 2 it belongs to user 2.
\<close>

theorem updateArticle_reassigns_owner:
  "article_findUnique db_xy 1 =
     Some \<lparr>article_id = 1, article_userId = 1, article_title = ''X'', article_content = ''Text''\<rparr> \<and>
   fst (updateArticle keyed db_xy 1 req_owner2) =
     Inr \<lparr>article_id = 1, article_userId = 2, article_title = ''X'', article_content = ''Text''\<rparr> \<and>
   article_findUnique (snd (updateArticle keyed db_xy 1 req_owner2)) 1 =
     Some \<lparr>article_id = 1, article_userId = 2, article_title = ''X'', article_content = ''Text''\<rparr>"
proof -
  have "article_findUnique db_xy 1 =
     Some \<lparr>article_id = 1, article_userId = 1, article_title = ''X'', article_content = ''Text''\<rparr>"
    by code_simp
  moreover have "fst (updateArticle keyed db_xy 1 req_owner2) =
     Inr \<lparr>article_id = 1, article_userId = 2, article_title = ''X'', article_content = ''Text''\<rparr>"
    by code_simp
  moreover have "article_findUnique (snd (updateArticle keyed db_xy 1 req_owner2)) 1 =
     Some \<lparr>article_id = 1, article_userId = 2, article_title = ''X'', article_content = ''Text''\<rparr>"
    by code_simp
  ultimately show ?thesis by simp
qed

text \<open>
  C2, amended: a successful update writes the owner id, the title and the
  content of the request into the rows with the given id and returns the article
  with these values; every other article row, and the user, sticker and link
  tables, are as before.
\<close>

theorem updateArticle_frame:
  assumes "updateArticle g s aid article = (Inr updated, s')"
  shows "user_table s' = user_table s \<and>
         sticker_table s' = sticker_table s \<and>
         articleSticker_table s' = articleSticker_table s \<and>
         article_table s' =
           map (\<lambda>r. if article_id r = aid then apply_update article r else r) (article_table s) \<and>
         article_id updated = aid \<and>
         article_userId updated = userId article \<and>
         article_title updated = title article \<and>
         article_content updated = content article"
proof -
  from updateArticle_success [OF assms] obtain a where
    s': "s' = s\<lparr>article_table :=
                   map (\<lambda>r. if article_id r = aid then apply_update article r else r)
                     (article_table s)\<rparr>"
    and a: "article_findUnique s aid = Some a" "updated = apply_update article a"
    by blast
  from article_findUnique_id [OF a(1)] a(2) s' show ?thesis
    by (simp add: apply_update_def)
qed

text \<open>C2, amended, at the update of article 1 that names user 2.\<close>

theorem updateArticle_frame_witness:
  "updateArticle keyed db_xy 1 req_owner2 =
     (Inr \<lparr>article_id = 1, article_userId = 2, article_title = ''X'', article_content = ''Text''\<rparr>,
      db_xy\<lparr>article_table :=
        [\<lparr>article_id = 1, article_userId = 2, article_title = ''X'', article_content = ''Text''\<rparr>,
         \<lparr>article_id = 2, article_userId = 1, article_title = ''Y'', article_content = ''Text''\<rparr>]\<rparr>) \<and>
   sticker_table (db_xy\<lparr>article_table :=
        [\<lparr>article_id = 1, article_userId = 2, article_title = ''X'', article_content = ''Text''\<rparr>,
         \<lparr>article_id = 2, article_userId = 1, article_title = ''Y'', article_content = ''Text''\<rparr>]\<rparr>) =
     sticker_table db_xy \<and>
   article_userId
     \<lparr>article_id = 1, article_userId = 2, article_title = ''X'', article_content = ''Text''\<rparr> =
     userId req_owner2"
proof -
  have h: "updateArticle keyed db_xy 1 req_owner2 =
     (Inr \<lparr>article_id = 1, article_userId = 2, article_title = ''X'', article_content = ''Text''\<rparr>,
      db_xy\<lparr>article_table :=
        [\<lparr>article_id = 1, article_userId = 2, article_title = ''X'', article_content = ''Text''\<rparr>,
         \<lparr>article_id = 2, article_userId = 1, article_title = ''Y'', article_content = ''Text''\<rparr>]\<rparr>)"
    by code_simp
  from updateArticle_frame [OF h] h show ?thesis by simp
qed

text \<open>
  C9: when the article exists and the database fails the update, whatever the
  database error is, updateArticle throws the same InternalServerErrorException
  with a fixed message. It is of the ServerError kind, not of the NotFound kind,
  it is not the error thrown for a missing article, and it does not carry the
  database error. The store is unchanged.
\<close>

theorem updateArticle_server_error:
  assumes "article_findUnique s aid = Some existArticle"
    and "article_update g s aid article = Inl e"
  shows "updateArticle g s aid article =
           (Inl (InternalServerErrorException ''Database error occurred''), s) \<and>
         error_kind_of (InternalServerErrorException ''Database error occurred'') = ServerError \<and>
         error_kind_of (InternalServerErrorException ''Database error occurred'') \<noteq> NotFound \<and>
         InternalServerErrorException ''Database error occurred'' \<noteq>
           UnauthorizedException ''Article with id not found!'' \<and>
         InternalServerErrorException ''Database error occurred'' \<noteq> Propagated e"
  using assms by (simp add: updateArticle_def)

text \<open>
  C9 at an update that gives article 1 the title of article 2, which the unique
  key on the title refuses.
\<close>

theorem updateArticle_server_error_witness:
  "article_findUnique db_xy 1 =
     Some \<lparr>article_id = 1, article_userId = 1, article_title = ''X'', article_content = ''Text''\<rparr> \<and>
   article_update keyed db_xy 1 req_title_y = Inl (PrismaError ''P2002'') \<and>
   updateArticle keyed db_xy 1 req_title_y =
     (Inl (InternalServerErrorException ''Database error occurred''), db_xy)"
proof -
  have h1: "article_findUnique db_xy 1 =
     Some \<lparr>article_id = 1, article_userId = 1, article_title = ''X'', article_content = ''Text''\<rparr>"
    by code_simp
  have h2: "article_update keyed db_xy 1 req_title_y = Inl (PrismaError ''P2002'')"
    by code_simp
  from updateArticle_server_error [OF h1 h2] h1 h2 show ?thesis by simp
qed

section \<open>deleteArticle: what a successful call wrote\<close>

lemma sticker_delete_success:
  "sticker_delete g s sid = Inr s1 \<Longrightarrow>
   s1 = s\<lparr>sticker_table := filter (\<lambda>r. \<not> sticker_id r = sid) (sticker_table s)\<rparr>"
  by (auto simp: sticker_delete_def split: if_splits option.splits)

text \<open>
  The loop leaves the other tables alone and removes exactly the stickers among
  the given ids that no other article links to. The count is read off the link
  table, which the loop does not change.
\<close>

lemma deleteArticle_stickers_success:
  "deleteArticle_stickers g aid sids s = (Inr u, s') \<Longrightarrow>
   user_table s' = user_table s \<and> article_table s' = article_table s \<and>
   articleSticker_table s' = articleSticker_table s \<and>
   sticker_table s' =
     filter (\<lambda>r. \<not> (sticker_id r \<in> set sids \<and> articleSticker_count s (sticker_id r) aid = 0))
       (sticker_table s)"
proof (induction sids arbitrary: s)
  case Nil
  then show ?case by simp
next
  case (Cons sid sids)
  show ?case
  proof (cases "articleSticker_count s sid aid = 0")
    case True
    with Cons.prems obtain s1 where
      d: "sticker_delete g s sid = Inr s1" and
      r: "deleteArticle_stickers g aid sids s1 = (Inr u, s')"
      by (auto simp: Let_def split: sum.splits)
    note s1 = sticker_delete_success [OF d]
    have cnt: "\<And>x. articleSticker_count s1 x aid = articleSticker_count s x aid"
      using s1 by (simp add: articleSticker_count_def)
    from Cons.IH [OF r] s1 cnt True show ?thesis
      by (auto intro!: filter_cong)
  next
    case False
    with Cons.prems have r: "deleteArticle_stickers g aid sids s = (Inr u, s')"
      by (simp add: Let_def)
    from Cons.IH [OF r] False show ?thesis
      by (auto intro!: filter_cong)
  qed
qed

lemma deleteArticle_tx_success:
  assumes "deleteArticle_tx g aid s = (Inr u, s')"
  shows "user_table s' = user_table s"
    and "article_table s' = filter (\<lambda>a. \<not> article_id a = aid) (article_table s)"
    and "articleSticker_table s' = filter (\<lambda>l. \<not> articleId l = aid) (articleSticker_table s)"
    and "sticker_table s' =
           filter (\<lambda>r. \<not> (sticker_id r \<in> stickerId ` set (articleSticker_findMany s aid) \<and>
                           articleSticker_count s (sticker_id r) aid = 0))
             (sticker_table s)"
proof -
  from assms obtain s1 s2 where
    d: "articleSticker_deleteMany g s aid = Inr s1" and
    l: "deleteArticle_stickers g aid (map stickerId (articleSticker_findMany s aid)) s1 =
          (Inr (), s2)" and
    a: "article_delete g s2 aid = Inr s'"
    by (auto simp: deleteArticle_tx_def Let_def split: sum.splits prod.splits)
  from d have s1: "s1 = s\<lparr>articleSticker_table :=
                   filter (\<lambda>l. \<not> articleId l = aid) (articleSticker_table s)\<rparr>"
    by (auto simp: articleSticker_deleteMany_def split: option.splits)
  have cnt: "\<And>x. articleSticker_count s1 x aid = articleSticker_count s x aid"
    using s1
    by (auto simp: articleSticker_count_def intro!: arg_cong [where f = length] filter_cong)
  from a have s': "s' = s2\<lparr>article_table :=
                    filter (\<lambda>a. \<not> article_id a = aid) (article_table s2)\<rparr>"
    by (auto simp: article_delete_def split: if_splits option.splits)
  note loop = deleteArticle_stickers_success [OF l]
  from loop s1 s' show "user_table s' = user_table s" by simp
  from loop s1 s' show "article_table s' = filter (\<lambda>a. \<not> article_id a = aid) (article_table s)"
    by simp
  from loop s1 s' show "articleSticker_table s' =
      filter (\<lambda>l. \<not> articleId l = aid) (articleSticker_table s)"
    by simp
  from loop s1 s' cnt show "sticker_table s' =
           filter (\<lambda>r. \<not> (sticker_id r \<in> stickerId ` set (articleSticker_findMany s aid) \<and>
                           articleSticker_count s (sticker_id r) aid = 0))
             (sticker_table s)"
    by simp
qed

lemma deleteArticle_success:
  "deleteArticle g s aid = (Inr u, s') \<Longrightarrow> deleteArticle_tx g aid s = (Inr u, s')"
  by (auto simp: deleteArticle_def transaction_def split: option.splits sum.splits prod.splits)

text \<open>A delete call that fails leaves the store as it was.\<close>

lemma deleteArticle_failure: "deleteArticle g s aid = (Inl e, s') \<Longrightarrow> s' = s"
  by (auto simp: deleteArticle_def transaction_def split: option.splits sum.splits prod.splits)

text \<open>A delete call that succeeds leaves no link row and no article row with the id.\<close>

lemma deleteArticle_removes:
  assumes "deleteArticle g s aid = (Inr u, s')"
  shows "articleSticker_findMany s' aid = []"
    and "article_findUnique s' aid = None"
    and "getArticleById s' aid = Inl (UnauthorizedException ''Article with id not found!'')"
proof -
  note post = deleteArticle_tx_success [OF deleteArticle_success [OF assms]]
  show "articleSticker_findMany s' aid = []"
    by (simp add: articleSticker_findMany_def post(3) filter_empty_conv)
  show none: "article_findUnique s' aid = None"
    by (simp add: article_findUnique_def post(2) find_None_iff)
  then show "getArticleById s' aid = Inl (UnauthorizedException ''Article with id not found!'')"
    by (simp add: getArticleById_def)
qed

text \<open>
  With a schema that refuses nothing, deleting an existing article whose links
  name pairwise different, existing stickers succeeds.
\<close>

lemma deleteArticle_stickers_returns:
  assumes "\<forall>w s. rejects g w s = None"
  shows "distinct sids \<Longrightarrow>
    \<forall>sid\<in>set sids. list_ex (\<lambda>r. sticker_id r = sid) (sticker_table s) \<Longrightarrow>
    \<exists>s'. deleteArticle_stickers g aid sids s = (Inr (), s')"
proof (induction sids arbitrary: s)
  case Nil
  then show ?case by simp
next
  case (Cons sid sids)
  show ?case
  proof (cases "articleSticker_count s sid aid = 0")
    case True
    define s1 where
      "s1 = s\<lparr>sticker_table := filter (\<lambda>r. \<not> sticker_id r = sid) (sticker_table s)\<rparr>"
    from Cons.prems assms have d: "sticker_delete g s sid = Inr s1"
      by (simp add: sticker_delete_def s1_def)
    have "\<forall>x\<in>set sids. list_ex (\<lambda>r. sticker_id r = x) (sticker_table s1)"
    proof
      fix x assume x: "x \<in> set sids"
      with Cons.prems obtain r where "r \<in> set (sticker_table s)" "sticker_id r = x"
        by (auto simp: list_ex_iff)
      moreover from x Cons.prems have "x \<noteq> sid" by auto
      ultimately show "list_ex (\<lambda>r. sticker_id r = x) (sticker_table s1)"
        by (auto simp: s1_def list_ex_iff)
    qed
    with Cons.IH [of s1] Cons.prems obtain s' where
      "deleteArticle_stickers g aid sids s1 = (Inr (), s')"
      by auto
    with True d show ?thesis by (simp add: Let_def)
  next
    case False
    with Cons.IH [of s] Cons.prems show ?thesis by (simp add: Let_def)
  qed
qed

lemma deleteArticle_returns:
  assumes "\<forall>w s. rejects g w s = None"
    and "article_findUnique s aid \<noteq> None"
    and "distinct (map stickerId (articleSticker_findMany s aid))"
    and "\<forall>l\<in>set (articleSticker_findMany s aid).
           list_ex (\<lambda>r. sticker_id r = stickerId l) (sticker_table s)"
  shows "\<exists>s'. deleteArticle g s aid = (Inr (), s')"
proof -
  define s1 where "s1 = s\<lparr>articleSticker_table :=
                   filter (\<lambda>l. \<not> articleId l = aid) (articleSticker_table s)\<rparr>"
  have d: "articleSticker_deleteMany g s aid = Inr s1"
    using assms(1) by (simp add: articleSticker_deleteMany_def s1_def)
  have "\<forall>sid\<in>set (map stickerId (articleSticker_findMany s aid)).
          list_ex (\<lambda>r. sticker_id r = sid) (sticker_table s1)"
    using assms(4) by (auto simp: s1_def)
  from deleteArticle_stickers_returns [OF assms(1) assms(3) this]
  obtain s2 where
    l: "deleteArticle_stickers g aid (map stickerId (articleSticker_findMany s aid)) s1 =
          (Inr (), s2)"
    by blast
  from deleteArticle_stickers_success [OF l] have "article_table s2 = article_table s"
    by (simp add: s1_def)
  with assms(2) have "list_ex (\<lambda>a. article_id a = aid) (article_table s2)"
    by (auto simp: article_findUnique_def find_None_iff list_ex_iff)
  with assms(1) obtain s3 where a: "article_delete g s2 aid = Inr s3"
    by (simp add: article_delete_def)
  from assms(2) d l a show ?thesis
    by (auto simp: deleteArticle_def transaction_def deleteArticle_tx_def Let_def)
qed

section \<open>deleteArticle: orphan cleanup\<close>




section \<open>deleteArticle, then getArticleById\<close>

text \<open>
  C7, evaluated at the delete of article 1: the call succeeds, no link row and
  no article row of article 1 is left, but fetching article 1 afterwards throws
  the UnauthorizedException, of the NotAuthorized kind, and not an error of the
  NotFound kind.
\<close>

theorem deleteArticle_then_get:
  "deleteArticle keyed db_xy 1 = (Inr (), db_y) \<and>
   articleSticker_findMany db_y 1 = [] \<and>
   article_findUnique db_y 1 = None \<and>
   getArticleById db_y 1 = Inl (UnauthorizedException ''Article with id not found!'') \<and>
   error_kind_of (UnauthorizedException ''Article with id not found!'') = NotAuthorized"
proof -
  have d: "deleteArticle keyed db_xy 1 = (Inr (), db_y)" by code_simp
  from deleteArticle_removes [OF d] d show ?thesis by simp
qed

section \<open>No sticker without a link\<close>

lemma createArticle_no_orphan:
  assumes "no_orphan s" and "createArticle g s article = (Inr a, s')"
  shows "no_orphan s'"
proof -
  from createArticle_tx_success [OF createArticle_success [OF assms(2)]]
  obtain recs new where
    st: "sticker_table s' = sticker_table s @ new" "set new \<subseteq> set recs" and
    li: "articleSticker_table s' = articleSticker_table s @
        map (\<lambda>sticker. \<lparr>articleId = article_id a, stickerId = sticker_id sticker\<rparr>) recs"
    by blast
  show ?thesis
    unfolding no_orphan_def list_all_iff list_ex_iff
  proof
    fix r assume "r \<in> set (sticker_table s')"
    then consider "r \<in> set (sticker_table s)" | "r \<in> set recs" using st by auto
    then show "\<exists>l\<in>set (articleSticker_table s'). stickerId l = sticker_id r"
    proof cases
      case 1
      with assms(1) show ?thesis
        by (auto simp: no_orphan_def list_all_iff list_ex_iff li)
    next
      case 2
      then show ?thesis by (force simp: li)
    qed
  qed
qed

lemma deleteArticle_no_orphan:
  assumes "no_orphan s" and "deleteArticle g s aid = (Inr u, s')"
  shows "no_orphan s'"
proof -
  note post = deleteArticle_tx_success [OF deleteArticle_success [OF assms(2)]]
  show ?thesis
    unfolding no_orphan_def list_all_iff list_ex_iff
  proof
    fix r assume r: "r \<in> set (sticker_table s')"
    then have rs: "r \<in> set (sticker_table s)" by (simp add: post(4))
    with assms(1) obtain l where
      l: "l \<in> set (articleSticker_table s)" "stickerId l = sticker_id r"
      by (auto simp: no_orphan_def list_all_iff list_ex_iff)
    show "\<exists>l\<in>set (articleSticker_table s'). stickerId l = sticker_id r"
    proof (cases "articleId l = aid")
      case False
      with l show ?thesis by (auto simp: post(3))
    next
      case True
      with l have "sticker_id r \<in> stickerId ` set (articleSticker_findMany s aid)"
        by (force simp: articleSticker_findMany_def)
      with r have "articleSticker_count s (sticker_id r) aid \<noteq> 0"
        by (auto simp: post(4))
      then obtain k where
        "k \<in> set (articleSticker_table s)" "stickerId k = sticker_id r" "articleId k \<noteq> aid"
        by (auto simp: articleSticker_count_def filter_empty_conv)
      then show ?thesis by (auto simp: post(3))
    qed
  qed
qed

text \<open>
  C10: from a store in which every sticker row is referenced by a link row, a
  successful createArticle and a successful deleteArticle each lead to a store
  in which every sticker row is referenced by a link row.
\<close>

theorem no_orphan_preserved:
  assumes "no_orphan s"
    and "createArticle g s article = (Inr a, s') \<or> deleteArticle g s aid = (Inr u, s')"
  shows "no_orphan s'"
  using assms createArticle_no_orphan deleteArticle_no_orphan by blast

text \<open>
  C10 at a create call that reuses one sticker and adds another, and at the
  delete of article 1.
\<close>

theorem no_orphan_preserved_witness:
  "no_orphan db_xy \<and>
   createArticle keyed db_xy req_z =
     (Inr \<lparr>article_id = 3, article_userId = 2, article_title = ''Z'', article_content = ''Text''\<rparr>,
      db_xy\<lparr>article_table := article_table db_xy @
               [\<lparr>article_id = 3, article_userId = 2, article_title = ''Z'',
                 article_content = ''Text''\<rparr>],
            sticker_table := sticker_table db_xy @ [\<lparr>sticker_id = 3, sticker_name = ''new''\<rparr>],
            articleSticker_table := articleSticker_table db_xy @
               [\<lparr>articleId = 3, stickerId = 2\<rparr>, \<lparr>articleId = 3, stickerId = 3\<rparr>]\<rparr>) \<and>
   no_orphan (db_xy\<lparr>article_table := article_table db_xy @
               [\<lparr>article_id = 3, article_userId = 2, article_title = ''Z'',
                 article_content = ''Text''\<rparr>],
            sticker_table := sticker_table db_xy @ [\<lparr>sticker_id = 3, sticker_name = ''new''\<rparr>],
            articleSticker_table := articleSticker_table db_xy @
               [\<lparr>articleId = 3, stickerId = 2\<rparr>, \<lparr>articleId = 3, stickerId = 3\<rparr>]\<rparr>) \<and>
   deleteArticle keyed db_xy 1 = (Inr (), db_y) \<and>
   no_orphan db_y"
proof -
  have h: "no_orphan db_xy" by code_simp
  have c: "createArticle keyed db_xy req_z =
     (Inr \<lparr>article_id = 3, article_userId = 2, article_title = ''Z'', article_content = ''Text''\<rparr>,
      db_xy\<lparr>article_table := article_table db_xy @
               [\<lparr>article_id = 3, article_userId = 2, article_title = ''Z'',
                 article_content = ''Text''\<rparr>],
            sticker_table := sticker_table db_xy @ [\<lparr>sticker_id = 3, sticker_name = ''new''\<rparr>],
            articleSticker_table := articleSticker_table db_xy @
               [\<lparr>articleId = 3, stickerId = 2\<rparr>, \<lparr>articleId = 3, stickerId = 3\<rparr>]\<rparr>)"
    by code_simp
  have d: "deleteArticle keyed db_xy 1 = (Inr (), db_y)" by code_simp
  from no_orphan_preserved [OF h disjI1 [OF c]] no_orphan_preserved [OF h disjI2 [OF d]] h c d
  show ?thesis by simp
qed

end
